theory Spec2Isabelle
  imports Complex_Main
begin

section \<open>Strings as the template uses them\<close>

text \<open>
  The template works on Python strings with \<^verbatim>\<open>str.split(' ')\<close>,
  \<^verbatim>\<open>' '.join(...)\<close>, \<^verbatim>\<open>str.split('\n')\<close> and
  \<^verbatim>\<open>str.replace('\\n', '\n')\<close>. A string is a list of characters.
\<close>

definition SP :: char where
  "SP = CHR 0x20"

definition NL :: char where
  "NL = CHR 0x0A"

definition BSL :: char where
  "BSL = CHR 0x5C"

definition LOWER_N :: char where
  "LOWER_N = CHR 0x6E"

text \<open>
  \<^verbatim>\<open>s.split(sep)\<close> for a one-character separator: every occurrence of the
  separator ends a field, empty fields are kept, and the result always has at least one
  field (the empty string splits into one empty field).
\<close>

fun split_sep :: "char \<Rightarrow> string \<Rightarrow> string list" where
  "split_sep c [] = [[]]"
| "split_sep c (x # xs) =
     (if x = c then [] # split_sep c xs
      else (case split_sep c xs of
              [] \<Rightarrow> [[x]]
            | w # ws \<Rightarrow> (x # w) # ws))"

text \<open>\<^verbatim>\<open>sep.join(words)\<close> for a one-character separator.\<close>

fun join_sep :: "char \<Rightarrow> string list \<Rightarrow> string" where
  "join_sep c [] = []"
| "join_sep c [w] = w"
| "join_sep c (w # v # ws) = w @ c # join_sep c (v # ws)"

section \<open>Fonts and the environment of a render\<close>

text \<open>
  A loaded font is the file it was loaded from and its pixel size
  (\<^verbatim>\<open>ImageFont.truetype(path, size)\<close>).
\<close>

record font =
  face :: string
  px :: int

text \<open>
  Everything the template asks of the file system and of the imaging library is a field
  of the environment, so that no behaviour of the library is assumed:
  \<^item> \<open>base_dir\<close>: the directory of the template module (\<^verbatim>\<open>BASE_DIR\<close>);
  \<^item> \<open>path_exists\<close>: \<^verbatim>\<open>os.path.exists\<close>;
  \<^item> \<open>open_ok\<close>: \<^verbatim>\<open>Image.open(path).convert('RGBA')\<close> returns an image;
  \<^item> \<open>resize_ok w h\<close>: resizing an opened image to \<open>(w, h)\<close>, scaling its alpha
    channel and pasting it raise nothing;
  \<^item> \<open>font_file_ok\<close> and \<open>font_size_ok\<close>: \<^verbatim>\<open>ImageFont.truetype(path, size)\<close>
    returns a font when the file is a loadable font and the library accepts the size;
  \<^item> \<open>canvas_size_ok w h\<close>: \<^verbatim>\<open>Image.new('RGB', (w, h), ...)\<close> returns a canvas;
  \<^item> \<open>save_ok\<close>: creating the directory of the output path and saving there succeed;
  \<^item> \<open>text_width font text\<close>: the width \<^verbatim>\<open>bbox[2] - bbox[0]\<close> of
    \<^verbatim>\<open>draw.textbbox((0, 0), text, font=font)\<close>.
  Console messages (\<^verbatim>\<open>print\<close>) are not part of the model.
\<close>

record env =
  base_dir :: string
  path_exists :: "string \<Rightarrow> bool"
  open_ok :: "string \<Rightarrow> bool"
  resize_ok :: "int \<Rightarrow> int \<Rightarrow> bool"
  font_file_ok :: "string \<Rightarrow> bool"
  font_size_ok :: "int \<Rightarrow> bool"
  canvas_size_ok :: "int \<Rightarrow> int \<Rightarrow> bool"
  save_ok :: "string \<Rightarrow> bool"
  text_width :: "font \<Rightarrow> string \<Rightarrow> int"

section \<open>Text wrapping\<close>

text \<open>
  The loop of \<^verbatim>\<open>wrap_text\<close> over the words, with its two variables
  \<^verbatim>\<open>lines\<close> and \<^verbatim>\<open>current_line\<close>; the first argument measures a
  candidate line. After the last word the pending line is appended when it is a
  non-empty list.
\<close>

fun wrap_loop :: "(string \<Rightarrow> int) \<Rightarrow> int \<Rightarrow> string list \<Rightarrow> string list \<Rightarrow> string list \<Rightarrow> string list" where
  "wrap_loop tw max_width [] lines current_line =
     (if current_line \<noteq> [] then lines @ [join_sep SP current_line] else lines)"
| "wrap_loop tw max_width (word # words) lines current_line =
     (if tw (join_sep SP (current_line @ [word])) \<le> max_width
      then wrap_loop tw max_width words lines (current_line @ [word])
      else wrap_loop tw max_width words
             (if current_line \<noteq> [] then lines @ [join_sep SP current_line] else lines)
             [word])"

definition wrap_text :: "env \<Rightarrow> string \<Rightarrow> font \<Rightarrow> int \<Rightarrow> string list" where
  "wrap_text e text fnt max_width =
     wrap_loop (text_width e fnt) max_width (split_sep SP text) [] []"

text \<open>
  The spec's "whitespace-normalized" text, written from the spec's words and not from the
  code: the words between runs of whitespace, joined by single spaces.
\<close>

definition is_whitespace :: "char \<Rightarrow> bool" where
  "is_whitespace c = (c \<in> set [CHR 0x20, CHR 0x09, CHR 0x0A, CHR 0x0B, CHR 0x0C, CHR 0x0D])"

fun whitespace_words :: "string \<Rightarrow> string \<Rightarrow> string list" where
  "whitespace_words acc [] = (if acc = [] then [] else [acc])"
| "whitespace_words acc (x # xs) =
     (if is_whitespace x
      then (if acc = [] then whitespace_words [] xs else acc # whitespace_words [] xs)
      else whitespace_words (acc @ [x]) xs)"

definition spec_whitespace_normalized :: "string \<Rightarrow> string" where
  "spec_whitespace_normalized text = join_sep SP (whitespace_words [] text)"

text \<open>A fixed-pitch measurer used in the concrete runs: every character is as wide as the font size.\<close>

definition fixed_pitch :: "font \<Rightarrow> string \<Rightarrow> int" where
  "fixed_pitch f t = px f * int (length t)"

section \<open>Titles, paths and truncation\<close>

text \<open>
  \<^verbatim>\<open>title.replace('\\n', '\n')\<close>: scanning from the left, every occurrence of
  the two characters backslash, \<open>n\<close> becomes one line-feed character; the scan goes on
  after the replaced pair.
\<close>

fun replace_escaped_newline :: "string \<Rightarrow> string" where
  "replace_escaped_newline (a # b # rest) =
     (if a = BSL \<and> b = LOWER_N then NL # replace_escaped_newline rest
      else a # replace_escaped_newline (b # rest))"
| "replace_escaped_newline [a] = [a]"
| "replace_escaped_newline [] = []"

text \<open>Whether the two characters backslash, \<open>n\<close> stand next to each other in a string.\<close>

fun has_escaped_newline :: "string \<Rightarrow> bool" where
  "has_escaped_newline (a # b # rest) =
     ((a = BSL \<and> b = LOWER_N) \<or> has_escaped_newline (b # rest))"
| "has_escaped_newline [a] = False"
| "has_escaped_newline [] = False"

text \<open>
  \<^verbatim>\<open>os.path.join(a, b)\<close> on POSIX paths: an absolute second part replaces the
  first, otherwise one slash separates them.
\<close>

definition path_join :: "string \<Rightarrow> string \<Rightarrow> string" where
  "path_join a b =
     (if b \<noteq> [] \<and> hd b = CHR ''/'' then b
      else if a = [] \<or> last a = CHR ''/'' then a @ b
      else a @ ''/'' @ b)"

text \<open>
  Python's \<^verbatim>\<open>int(x)\<close> on a number truncates towards zero. The scale of the three
  social-media layouts is the quotient \<^verbatim>\<open>width / 1080\<close> (or \<^verbatim>\<open>/ 1200\<close>), a
  rational number here; for the widths the renderer passes (a base width times an integer
  scale) the quotient is that integer, which the floating-point division returns exactly.
\<close>

definition py_int :: "rat \<Rightarrow> int" where
  "py_int r = (if 0 \<le> r then \<lfloor>r\<rfloor> else \<lceil>r\<rceil>)"

section \<open>Configuration: paths, colours, formats\<close>

definition FONTS_DIR :: "env \<Rightarrow> string" where
  "FONTS_DIR e = path_join (base_dir e) ''fonts''"

definition LOGO_PATH :: "env \<Rightarrow> string" where
  "LOGO_PATH e =
     path_join (path_join (path_join (path_join (base_dir e) ''..'') ''public'') ''lovable-uploads'')
       ''47301834-0831-465c-ae5e-47a978038312.png''"

definition OUTPUT_DIR :: "env \<Rightarrow> string" where
  "OUTPUT_DIR e = path_join (base_dir e) ''output''"

type_synonym color = "nat \<times> nat \<times> nat"

definition COLORS_black :: color where
  "COLORS_black = (26, 26, 26)"

definition COLORS_white :: color where
  "COLORS_white = (255, 255, 255)"

definition amber_canva :: color where
  "amber_canva = (184, 146, 61)"

definition FORMATS :: "(string \<times> int \<times> int) list" where
  "FORMATS =
     [(''ppt_4_3'', 1024, 768),
      (''instagram_post'', 1080, 1080),
      (''instagram_story'', 1080, 1920),
      (''facebook_post'', 1200, 630)]"

section \<open>Errors and fonts\<close>

text \<open>
  The template has no \<^verbatim>\<open>raise\<close> of its own. What can end a render is an exception
  of a library call outside a \<^verbatim>\<open>try\<close>: loading a font, allocating the canvas,
  saving the file, and the lookup \<^verbatim>\<open>FORMATS['ppt_4_3']\<close>.
\<close>

datatype error = FontError | CanvasError | SaveError | KeyError

definition and_then :: "error + 'a \<Rightarrow> ('a \<Rightarrow> error + 'b) \<Rightarrow> error + 'b" where
  "and_then r k = (case r of Inl err \<Rightarrow> Inl err | Inr v \<Rightarrow> k v)"

definition truetype :: "env \<Rightarrow> string \<Rightarrow> int \<Rightarrow> error + font" where
  "truetype e path sz =
     (if font_file_ok e path \<and> font_size_ok e sz then Inr \<lparr>face = path, px = sz\<rparr>
      else Inl FontError)"

definition HELVETICA :: string where
  "HELVETICA = ''/System/Library/Fonts/Helvetica.ttc''"

definition GEORGIA :: string where
  "GEORGIA = ''/System/Library/Fonts/Supplemental/Georgia.ttf''"

definition get_montserrat :: "env \<Rightarrow> int \<Rightarrow> string \<Rightarrow> error + font" where
  "get_montserrat e sz weight =
     (let font_path =
            (if weight = ''light'' then path_join (FONTS_DIR e) ''Montserrat-Light.ttf''
             else path_join (FONTS_DIR e) ''Montserrat.ttf'')
      in if path_exists e font_path then truetype e font_path sz
         else truetype e HELVETICA sz)"

definition get_merriweather :: "env \<Rightarrow> int \<Rightarrow> bool \<Rightarrow> error + font" where
  "get_merriweather e sz italic =
     (let font_path =
            (if italic then path_join (FONTS_DIR e) ''Merriweather-Italic.ttf''
             else path_join (FONTS_DIR e) ''Merriweather-Regular.ttf'')
      in if path_exists e font_path then truetype e font_path sz
         else truetype e GEORGIA sz)"

section \<open>The drawing surface\<close>

text \<open>
  A canvas is the ordered list of the drawing operations applied to it:
  \<^item> \<open>Paste src x y w h opacity\<close>: the image file \<open>src\<close>, resized to \<open>w\<close> by \<open>h\<close>,
    its alpha scaled to \<open>opacity\<close> percent, pasted at \<open>(x, y)\<close>;
  \<^item> \<open>Line x0 y0 x1 y1 colour width\<close>, \<open>Rectangle\<close> and \<open>Ellipse\<close> likewise (outlined);
  \<^item> \<open>Disc x0 y0 x1 y1 colour\<close>: a filled ellipse;
  \<^item> \<open>Polygon points colour width\<close>;
  \<^item> \<open>Text x y string font colour\<close>.
\<close>

datatype prim =
    Paste string int int int int nat
  | Line int int int int color int
  | Rectangle int int int int color int
  | Ellipse int int int int color int
  | Disc int int int int color
  | Polygon "(int \<times> int) list" color int
  | Text int int string font color

text \<open>
  \<^verbatim>\<open>draw_icon(draw, icon_type, x, y, size, color)\<close>: the operations it adds to the
  canvas. The chain of \<^verbatim>\<open>if\<close>/\<^verbatim>\<open>elif\<close> has no final \<^verbatim>\<open>else\<close>.
\<close>

definition draw_icon :: "string \<Rightarrow> int \<Rightarrow> int \<Rightarrow> int \<Rightarrow> color \<Rightarrow> prim list" where
  "draw_icon icon_type x y sz colour =
     (let line_width = max 2 (sz div 12) in
      if icon_type = ''calendar'' then
        [Rectangle x (y + sz div 5) (x + sz) (y + sz) colour line_width,
         Line x (y + sz div 3) (x + sz) (y + sz div 3) colour line_width,
         Line (x + sz div 4) y (x + sz div 4) (y + sz div 4) colour line_width,
         Line (x + sz * 3 div 4) y (x + sz * 3 div 4) (y + sz div 4) colour line_width]
        @ map (\<lambda>i. Line (x + sz div 8) (y + sz div 3 + i * sz div 5)
                       (x + sz - sz div 8) (y + sz div 3 + i * sz div 5) colour 1) [1, 2]
        @ map (\<lambda>i. Line (x + i * sz div 4) (y + sz div 3 + sz div 10)
                       (x + i * sz div 4) (y + sz - sz div 10) colour 1) [1, 2, 3]
      else if icon_type = ''clock'' then
        (let center_x = x + sz div 2; center_y = y + sz div 2 in
         [Ellipse x y (x + sz) (y + sz) colour line_width,
          Line center_x center_y center_x (y + sz div 4) colour line_width,
          Line center_x center_y (x + sz * 3 div 4) center_y colour line_width])
      else if icon_type = ''location'' then
        (let center_x = x + sz div 2 in
         [Ellipse (x + sz div 4) y (x + sz * 3 div 4) (y + sz div 2) colour line_width,
          Disc (center_x - sz div 8) (y + sz div 6) (center_x + sz div 8) (y + sz div 6 + sz div 4) colour,
          Polygon [(x + sz div 4, y + sz div 3), (x + sz * 3 div 4, y + sz div 3), (center_x, y + sz)]
            colour line_width])
      else [])"

text \<open>
  A layout function is a straight sequence of calls on the canvas: a drawing operation, or
  a call of \<^verbatim>\<open>draw_icon\<close>. Running a call gives the operations it adds.
\<close>

datatype call = Draw prim | DrawIcon string int int int color

fun run_call :: "call \<Rightarrow> prim list" where
  "run_call (Draw p) = [p]"
| "run_call (DrawIcon icon_type x y sz colour) = draw_icon icon_type x y sz colour"

text \<open>
  The \<^verbatim>\<open>try\<close> block that opens an image, resizes it, scales its alpha and pastes
  it; any exception inside is caught and leaves the canvas as it was.
\<close>

definition try_paste :: "env \<Rightarrow> string \<Rightarrow> int \<Rightarrow> int \<Rightarrow> int \<Rightarrow> int \<Rightarrow> nat \<Rightarrow> call list" where
  "try_paste e path x y w h opacity =
     (if open_ok e path \<and> resize_ok e w h then [Draw (Paste path x y w h opacity)] else [])"

text \<open>
  The guard \<^verbatim>\<open>if illustration_path and os.path.exists(illustration_path)\<close> around
  that block: \<^verbatim>\<open>None\<close> and the empty string are false.
\<close>

fun paste_illustration :: "env \<Rightarrow> string option \<Rightarrow> int \<Rightarrow> int \<Rightarrow> int \<Rightarrow> int \<Rightarrow> nat \<Rightarrow> call list" where
  "paste_illustration e None x y w h opacity = []"
| "paste_illustration e (Some illustration_path) x y w h opacity =
     (if illustration_path \<noteq> [] \<and> path_exists e illustration_path
      then try_paste e illustration_path x y w h opacity else [])"

text \<open>The loop that draws a list of lines downwards, one \<^verbatim>\<open>draw.text\<close> per line.\<close>

fun draw_text_lines :: "int \<Rightarrow> int \<Rightarrow> int \<Rightarrow> string list \<Rightarrow> font \<Rightarrow> color \<Rightarrow> call list" where
  "draw_text_lines x y line_height [] fnt colour = []"
| "draw_text_lines x y line_height (line # rest) fnt colour =
     Draw (Text x y line fnt colour) # draw_text_lines x (y + line_height) line_height rest fnt colour"

section \<open>The four layouts\<close>

text \<open>
  Each layout function gives the calls it makes on the canvas, in the order of the source,
  or the error of the font loader (the exception leaves the function and the canvas is
  abandoned, so an error carries no operations). The slide layout multiplies its Canva coordinates by
  the integer \<^verbatim>\<open>scale\<close>; the other three derive their scale from the canvas width
  and truncate every product with \<^verbatim>\<open>int(...)\<close>. The title is drawn in black, the
  details in amber.
\<close>

definition create_ppt_layout ::
  "env \<Rightarrow> string \<Rightarrow> string \<Rightarrow> string \<Rightarrow> string \<Rightarrow> string option \<Rightarrow> int \<Rightarrow> int \<Rightarrow> int
    \<Rightarrow> error + call list" where
  "create_ppt_layout e title date time location illustration_path width height scale =
     (let s = scale;
          line_thickness = 4 * s;
          illust_width = 470; illust_height = 513; illust_x = 530; illust_y = 140;
          logo_size = 110 * s; logo_x = 457 * s; logo_y = 34 * s;
          layers =
            paste_illustration e illustration_path (illust_x * s) (illust_y * s)
              (illust_width * s) (illust_height * s) 15
            @ [Draw (Line (77 * s) (83 * s) (425 * s) (83 * s) amber_canva line_thickness),
               Draw (Line (599 * s) (83 * s) (947 * s) (83 * s) amber_canva line_thickness),
               Draw (Line (75 * s) (690 * s) (947 * s) (690 * s) amber_canva line_thickness)]
            @ try_paste e (LOGO_PATH e) logo_x logo_y logo_size logo_size 100
      in and_then (get_montserrat e (115 * s) ''light'') (\<lambda>title_font.
           let titled =
                 layers
                 @ [Draw (Text (59 * s) (151 * s) (replace_escaped_newline title) title_font COLORS_black),
                    DrawIcon ''calendar'' (75 * s) (440 * s) (40 * s) amber_canva]
           in and_then (get_merriweather e (31 * s) True) (\<lambda>detail_font.
                Inr (titled
                     @ [Draw (Text (129 * s) (444 * s) date detail_font amber_canva),
                        DrawIcon ''clock'' (77 * s) (499 * s) (39 * s) amber_canva,
                        Draw (Text (129 * s) (500 * s) time detail_font amber_canva),
                        DrawIcon ''location'' (75 * s) (551 * s) (40 * s) amber_canva,
                        Draw (Text (131 * s) (557 * s) location detail_font amber_canva)]))))"

definition create_ig_story_layout ::
  "env \<Rightarrow> string \<Rightarrow> string \<Rightarrow> string \<Rightarrow> string \<Rightarrow> string option \<Rightarrow> int \<Rightarrow> int
    \<Rightarrow> error + call list" where
  "create_ig_story_layout e title date time location illustration_path width height =
     (let s = (of_int width / 1080 :: rat);
          layers =
            paste_illustration e illustration_path (py_int (63 * s)) (py_int (750 * s))
              (py_int (954 * s)) (py_int (1041 * s)) 15
      in and_then (get_montserrat e (py_int (175 * s)) ''regular'') (\<lambda>title_font.
           let titled =
                 layers
                 @ draw_text_lines (py_int (72 * s)) (py_int (286 * s)) (py_int (145 * s))
                     (split_sep NL (replace_escaped_newline title)) title_font COLORS_black
           in and_then (get_merriweather e (py_int (65 * s)) False) (\<lambda>detail_font.
                Inr (titled
                     @ [DrawIcon ''calendar'' (py_int (72 * s)) (py_int (807 * s)) (py_int (69 * s)) amber_canva,
                        Draw (Text (py_int (161 * s)) (py_int (798 * s)) date detail_font amber_canva),
                        DrawIcon ''clock'' (py_int (72 * s)) (py_int (974 * s)) (py_int (69 * s)) amber_canva,
                        Draw (Text (py_int (161 * s)) (py_int (960 * s)) time detail_font amber_canva),
                        DrawIcon ''location'' (py_int (72 * s)) (py_int (1122 * s)) (py_int (69 * s)) amber_canva]
                     @ draw_text_lines (py_int (161 * s)) (py_int (1122 * s)) (py_int (70 * s))
                         (wrap_text e location detail_font (py_int (850 * s))) detail_font amber_canva))))"

definition create_ig_post_layout ::
  "env \<Rightarrow> string \<Rightarrow> string \<Rightarrow> string \<Rightarrow> string \<Rightarrow> string option \<Rightarrow> int \<Rightarrow> int
    \<Rightarrow> error + call list" where
  "create_ig_post_layout e title date time location illustration_path width height =
     (let s = (of_int width / 1080 :: rat);
          line_thickness = py_int (4 * s);
          logo_size = py_int (87 * s);
          layers =
            paste_illustration e illustration_path (py_int (240 * s)) (py_int (0 * s))
              (py_int (954 * s)) (py_int (1041 * s)) 15
            @ [Draw (Line (py_int (42 * s)) (py_int (109 * s)) (py_int (1038 * s)) (py_int (109 * s))
                       amber_canva line_thickness),
               Draw (Line (py_int (42 * s)) (py_int (940 * s)) (py_int (461 * s)) (py_int (940 * s))
                       amber_canva line_thickness),
               Draw (Line (py_int (613 * s)) (py_int (940 * s)) (py_int (1032 * s)) (py_int (940 * s))
                       amber_canva line_thickness)]
            @ try_paste e (LOGO_PATH e) (py_int (497 * s)) (py_int (901 * s)) logo_size logo_size 100
      in and_then (get_montserrat e (py_int (140 * s)) ''regular'') (\<lambda>title_font.
           let titled =
                 layers
                 @ draw_text_lines (py_int (42 * s)) (py_int (140 * s)) (py_int (115 * s))
                     (split_sep NL (replace_escaped_newline title)) title_font COLORS_black
           in and_then (get_merriweather e (py_int (47 * s)) False) (\<lambda>detail_font.
                Inr (titled
                     @ [DrawIcon ''calendar'' (py_int (42 * s)) (py_int (486 * s)) (py_int (52 * s)) amber_canva,
                        Draw (Text (py_int (109 * s)) (py_int (480 * s)) date detail_font amber_canva),
                        DrawIcon ''clock'' (py_int (42 * s)) (py_int (613 * s)) (py_int (52 * s)) amber_canva,
                        Draw (Text (py_int (109 * s)) (py_int (603 * s)) time detail_font amber_canva),
                        DrawIcon ''location'' (py_int (42 * s)) (py_int (726 * s)) (py_int (52 * s)) amber_canva]
                     @ draw_text_lines (py_int (109 * s)) (py_int (726 * s)) (py_int (50 * s))
                         (wrap_text e location detail_font (py_int (500 * s))) detail_font amber_canva))))"

definition create_fb_post_layout ::
  "env \<Rightarrow> string \<Rightarrow> string \<Rightarrow> string \<Rightarrow> string \<Rightarrow> string option \<Rightarrow> int \<Rightarrow> int
    \<Rightarrow> error + call list" where
  "create_fb_post_layout e title date time location illustration_path width height =
     (let s = (of_int width / 1200 :: rat);
          line_thickness = py_int (4 * s);
          logo_size = py_int (93 * s);
          layers =
            paste_illustration e illustration_path (py_int (50 * s)) (py_int (20 * s))
              (py_int (545 * s)) (py_int (595 * s)) 13
            @ [Draw (Line (py_int (63 * s)) (py_int (63 * s)) (py_int (1137 * s)) (py_int (63 * s))
                       amber_canva line_thickness),
               Draw (Line (py_int (63 * s)) (py_int (560 * s)) (py_int (1025 * s)) (py_int (560 * s))
                       amber_canva line_thickness)]
            @ try_paste e (LOGO_PATH e) (py_int (1044 * s)) (py_int (512 * s)) logo_size logo_size 100
      in and_then (get_montserrat e (py_int (130 * s)) ''regular'') (\<lambda>title_font.
           let titled =
                 layers
                 @ draw_text_lines (py_int (63 * s)) (py_int (138 * s)) (py_int (125 * s))
                     (split_sep NL (replace_escaped_newline title)) title_font COLORS_black
           in and_then (get_merriweather e (py_int (34 * s)) False) (\<lambda>detail_font.
                let icon_size = py_int (36 * s)
                in Inr (titled
                     @ [DrawIcon ''calendar'' (py_int (645 * s)) (py_int (174 * s)) icon_size amber_canva,
                        Draw (Text (py_int (691 * s)) (py_int (170 * s)) date detail_font amber_canva),
                        DrawIcon ''clock'' (py_int (645 * s)) (py_int (262 * s)) icon_size amber_canva,
                        Draw (Text (py_int (691 * s)) (py_int (255 * s)) time detail_font amber_canva),
                        DrawIcon ''location'' (py_int (645 * s)) (py_int (339 * s)) icon_size amber_canva]
                     @ draw_text_lines (py_int (691 * s)) (py_int (339 * s)) (py_int (38 * s))
                         (wrap_text e location detail_font (py_int (430 * s))) detail_font amber_canva))))"

section \<open>The render\<close>

text \<open>The chain of comparisons on the format name; the slide layout is also the default.\<close>

definition select_layout ::
  "env \<Rightarrow> string \<Rightarrow> string \<Rightarrow> string \<Rightarrow> string \<Rightarrow> string option \<Rightarrow> string \<Rightarrow> int \<Rightarrow> int \<Rightarrow> int
    \<Rightarrow> error + call list" where
  "select_layout e title date time location illustration_path format_name width height scale =
     (if format_name = ''instagram_story''
      then create_ig_story_layout e title date time location illustration_path width height
      else if format_name = ''instagram_post''
      then create_ig_post_layout e title date time location illustration_path width height
      else if format_name = ''facebook_post''
      then create_fb_post_layout e title date time location illustration_path width height
      else create_ppt_layout e title date time location illustration_path width height scale)"

text \<open>
  The returned image: its size, background, the operations drawn on it, and the path it
  was saved to, if any.
\<close>

record rendered =
  img_w :: int
  img_h :: int
  img_bg :: color
  img_ops :: "prim list"
  saved_to :: "string option"

definition create_event_graphic ::
  "env \<Rightarrow> string \<Rightarrow> string \<Rightarrow> string \<Rightarrow> string \<Rightarrow> string option \<Rightarrow> string \<Rightarrow> string option \<Rightarrow> int
    \<Rightarrow> error + rendered" where
  "create_event_graphic e title date time location illustration_path format_name output_path scale =
     (case map_of FORMATS ''ppt_4_3'' of
        None \<Rightarrow> Inl KeyError
      | Some fallback \<Rightarrow>
          (let (base_width, base_height) =
                 (case map_of FORMATS format_name of Some dims \<Rightarrow> dims | None \<Rightarrow> fallback);
               width = base_width * scale;
               height = base_height * scale
           in if \<not> canvas_size_ok e width height then Inl CanvasError
              else and_then
                     (select_layout e title date time location illustration_path format_name
                        width height scale)
                     (\<lambda>calls.
                        let img = \<lparr>img_w = width, img_h = height, img_bg = COLORS_white,
                                   img_ops = concat (map run_call calls), saved_to = None\<rparr>
                        in case output_path of
                             None \<Rightarrow> Inr img
                           | Some p \<Rightarrow>
                               if p = [] then Inr img
                               else if save_ok e p then Inr (img\<lparr>saved_to := Some p\<rparr>)
                               else Inl SaveError)))"

text \<open>
  The loop of \<^verbatim>\<open>generate_complete_graphic\<close> over the requested formats, with the
  dictionary \<^verbatim>\<open>results\<close> and the files written so far. An unregistered format is
  skipped (\<^verbatim>\<open>continue\<close>); the others are rendered at the default scale 2 into
  the output directory.
\<close>

fun generate_formats ::
  "env \<Rightarrow> string \<Rightarrow> string \<Rightarrow> string \<Rightarrow> string \<Rightarrow> string option \<Rightarrow> string \<Rightarrow> string list
    \<Rightarrow> (string \<rightharpoonup> string) \<Rightarrow> string list \<Rightarrow> error + ((string \<rightharpoonup> string) \<times> string list)" where
  "generate_formats e title date time location illustration_path output_prefix [] results files =
     Inr (results, files)"
| "generate_formats e title date time location illustration_path output_prefix (format_name # rest)
     results files =
     (if format_name \<notin> set (map fst FORMATS)
      then generate_formats e title date time location illustration_path output_prefix rest results files
      else (let output_path =
                  path_join (OUTPUT_DIR e) (output_prefix @ ''_'' @ format_name @ ''.png'')
            in case create_event_graphic e title date time location illustration_path format_name
                      (Some output_path) 2 of
                 Inl err \<Rightarrow> Inl err
               | Inr img \<Rightarrow>
                   generate_formats e title date time location illustration_path output_prefix rest
                     (results(format_name \<mapsto> output_path))
                     (files @ (case saved_to img of None \<Rightarrow> [] | Some p \<Rightarrow> [p]))))"

text \<open>
  \<^verbatim>\<open>generate_complete_graphic\<close> from the point where the illustration path has been
  settled (a custom file, a cached file, a freshly generated one, or none): the argument
  \<open>illustration_path\<close> is that value. \<open>formats = None\<close> stands for all registered formats.
\<close>

definition generate_complete_graphic ::
  "env \<Rightarrow> string \<Rightarrow> string \<Rightarrow> string \<Rightarrow> string \<Rightarrow> string option \<Rightarrow> string list option \<Rightarrow> string
    \<Rightarrow> error + ((string \<rightharpoonup> string) \<times> string list)" where
  "generate_complete_graphic e title date time location illustration_path formats output_prefix =
     generate_formats e title date time location illustration_path output_prefix
       (case formats of None \<Rightarrow> map fst FORMATS | Some fs \<Rightarrow> fs) Map.empty []"

section \<open>Scaling, stated on operations and calls\<close>








section \<open>Concrete environments\<close>

text \<open>
  A workstation on which the bundled fonts and the logo are missing, the two system fonts
  load, and the library accepts every size; and the same machine without the system fonts.
\<close>

definition mac_env :: env where
  "mac_env =
     \<lparr>base_dir = ''/casa/design'',
      path_exists = (\<lambda>p. False),
      open_ok = (\<lambda>p. False),
      resize_ok = (\<lambda>w h. True),
      font_file_ok = (\<lambda>p. p = HELVETICA \<or> p = GEORGIA),
      font_size_ok = (\<lambda>z. True),
      canvas_size_ok = (\<lambda>w h. True),
      save_ok = (\<lambda>p. True),
      text_width = fixed_pitch\<rparr>"


definition sample_font :: font where
  "sample_font = \<lparr>face = GEORGIA, px = 10\<rparr>"

section \<open>Reading the title back from a canvas\<close>

text \<open>
  Only the title is drawn in black. The strings of the black text operations, in drawing
  order, and the lines they show (a text operation breaks its string at line feeds).
\<close>

fun black_text :: "prim \<Rightarrow> string list" where
  "black_text (Text x y t fnt colour) = (if colour = COLORS_black then [t] else [])"
| "black_text (Paste src x y w h opacity) = []"
| "black_text (Line x0 y0 x1 y1 colour w) = []"
| "black_text (Rectangle x0 y0 x1 y1 colour w) = []"
| "black_text (Ellipse x0 y0 x1 y1 colour w) = []"
| "black_text (Disc x0 y0 x1 y1 colour) = []"
| "black_text (Polygon pts colour w) = []"

definition drawn_title_strings :: "prim list \<Rightarrow> string list" where
  "drawn_title_strings ops = concat (map black_text ops)"

definition drawn_title_lines :: "prim list \<Rightarrow> string list" where
  "drawn_title_lines ops = concat (map (split_sep NL) (drawn_title_strings ops))"

section \<open>Properties of the string functions and of the wrapper\<close>

lemma split_sep_nonempty: "split_sep c s \<noteq> []"
  by (induction s) (auto split: list.splits)

lemma join_split_sep: "join_sep c (split_sep c s) = s"
proof (induction s)
  case Nil
  show ?case by simp
next
  case (Cons x xs)
  obtain w ws where sp: "split_sep c xs = w # ws"
    using split_sep_nonempty [of c xs] by (cases "split_sep c xs") auto
  show ?case
  proof (cases "x = c")
    case True
    with Cons sp show ?thesis by simp
  next
    case False
    with Cons sp show ?thesis by (cases ws) auto
  qed
qed

lemma join_sep_append:
  "xs \<noteq> [] \<Longrightarrow> ys \<noteq> [] \<Longrightarrow> join_sep c (xs @ ys) = join_sep c xs @ c # join_sep c ys"
proof (induction c xs rule: join_sep.induct)
  case (1 c)
  then show ?case by simp
next
  case (2 c w)
  then show ?case by (cases ys) auto
next
  case (3 c w v ws)
  then show ?case by simp
qed

lemma join_sep_concat:
  "\<forall>ch \<in> set chunks. ch \<noteq> [] \<Longrightarrow>
   join_sep c (map (join_sep c) chunks) = join_sep c (concat chunks)"
proof (induction chunks)
  case Nil
  show ?case by simp
next
  case (Cons ch chunks)
  show ?case
  proof (cases chunks)
    case Nil
    then show ?thesis by simp
  next
    case (Cons d ds)
    have ne: "ch \<noteq> []" "concat chunks \<noteq> []"
      using Cons.prems Cons by auto
    have "join_sep c (map (join_sep c) (ch # chunks))
          = join_sep c ch @ c # join_sep c (map (join_sep c) chunks)"
      using Cons by simp
    also have "\<dots> = join_sep c ch @ c # join_sep c (concat chunks)"
      using Cons.IH Cons.prems by simp
    also have "\<dots> = join_sep c (ch @ concat chunks)"
      using join_sep_append [OF ne] by simp
    finally show ?thesis by simp
  qed
qed

text \<open>
  The invariant of the loop: the pending line is empty, or fits the budget, or is a single
  word. The lines the loop adds are the space-joins of consecutive non-empty chunks of the
  pending words followed by the remaining words.
\<close>

lemma wrap_loop_chunks:
  "cur = [] \<or> tw (join_sep SP cur) \<le> m \<or> (\<exists>w. cur = [w]) \<Longrightarrow>
   \<exists>chunks. wrap_loop tw m ws lines cur = lines @ map (join_sep SP) chunks
     \<and> concat chunks = cur @ ws
     \<and> (\<forall>ch \<in> set chunks. ch \<noteq> [] \<and> (tw (join_sep SP ch) \<le> m \<or> (\<exists>w. ch = [w])))"
proof (induction ws arbitrary: lines cur)
  case Nil
  show ?case
  proof (cases "cur = []")
    case True
    then show ?thesis by (intro exI [of _ "[]"]) simp
  next
    case False
    with Nil show ?thesis by (intro exI [of _ "[cur]"]) auto
  qed
next
  case (Cons word ws)
  show ?case
  proof (cases "tw (join_sep SP (cur @ [word])) \<le> m")
    case True
    then obtain chunks where
      "wrap_loop tw m ws lines (cur @ [word]) = lines @ map (join_sep SP) chunks"
      "concat chunks = (cur @ [word]) @ ws"
      "\<forall>ch \<in> set chunks. ch \<noteq> [] \<and> (tw (join_sep SP ch) \<le> m \<or> (\<exists>w. ch = [w]))"
      using Cons.IH [of "cur @ [word]" lines] by blast
    with True show ?thesis by (intro exI [of _ chunks]) simp
  next
    case False
    let ?lines = "if cur \<noteq> [] then lines @ [join_sep SP cur] else lines"
    obtain chunks where ch:
      "wrap_loop tw m ws ?lines [word] = ?lines @ map (join_sep SP) chunks"
      "concat chunks = [word] @ ws"
      "\<forall>ch \<in> set chunks. ch \<noteq> [] \<and> (tw (join_sep SP ch) \<le> m \<or> (\<exists>w. ch = [w]))"
      using Cons.IH [of "[word]" ?lines] by blast
    show ?thesis
    proof (cases "cur = []")
      case True
      with False ch show ?thesis by (intro exI [of _ chunks]) simp
    next
      case nonempty: False
      with False ch Cons.prems show ?thesis
        by (intro exI [of _ "cur # chunks"]) auto
    qed
  qed
qed

lemma wrap_text_chunks:
  "\<exists>chunks. wrap_text e text fnt m = map (join_sep SP) chunks
     \<and> concat chunks = split_sep SP text
     \<and> (\<forall>ch \<in> set chunks. ch \<noteq> []
           \<and> (text_width e fnt (join_sep SP ch) \<le> m \<or> (\<exists>w. ch = [w])))"
  using wrap_loop_chunks [of "[]" "text_width e fnt" m "split_sep SP text" "[]"]
  by (simp add: wrap_text_def)

section \<open>Properties of the render\<close>

lemma paste_illustration_unavailable:
  "\<not> path_exists e p \<or> \<not> open_ok e p \<Longrightarrow> paste_illustration e (Some p) x y w h opacity = []"
  by (auto simp: try_paste_def)

lemma generate_formats_skip:
  "format_name \<notin> set (map fst FORMATS) \<Longrightarrow>
   generate_formats e title date time location illustration_path output_prefix
     (fs1 @ format_name # fs2) results files
   = generate_formats e title date time location illustration_path output_prefix
     (fs1 @ fs2) results files"
proof (induction fs1 arbitrary: results files)
  case Nil
  then show ?case by simp
next
  case (Cons f fs1)
  then show ?case by (simp add: Let_def split: sum.splits)
qed

lemma unregistered_format:
  assumes "format_name \<notin> set (map fst FORMATS)"
  shows "map_of FORMATS format_name = None"
    and "format_name \<noteq> ''instagram_story''" and "format_name \<noteq> ''instagram_post''"
    and "format_name \<noteq> ''facebook_post''" and "format_name \<noteq> ''ppt_4_3''"
  using assms by (auto simp: FORMATS_def)

lemma default_dimensions: "map_of FORMATS ''ppt_4_3'' = Some (1024, 768)"
  by (simp add: FORMATS_def)

lemmas concrete_render =
  create_event_graphic_def select_layout_def create_ppt_layout_def create_ig_story_layout_def
  create_ig_post_layout_def create_fb_post_layout_def and_then_def get_montserrat_def
  get_merriweather_def truetype_def try_paste_def FORMATS_def mac_env_def path_join_def
  FONTS_DIR_def LOGO_PATH_def HELVETICA_def GEORGIA_def draw_icon_def Let_def

section \<open>Properties of the title replacement and of line splitting\<close>

lemma has_escaped_newline_Cons:
  "has_escaped_newline (a # s) = ((a = BSL \<and> s \<noteq> [] \<and> hd s = LOWER_N) \<or> has_escaped_newline s)"
  by (cases s) auto

lemma replace_escaped_newline_hd:
  "s \<noteq> [] \<Longrightarrow> replace_escaped_newline s \<noteq> []
     \<and> (hd (replace_escaped_newline s) = hd s \<or> hd (replace_escaped_newline s) = NL)"
  by (induction s rule: replace_escaped_newline.induct) auto

lemma no_escape_after_replace: "\<not> has_escaped_newline (replace_escaped_newline s)"
proof (induction s rule: replace_escaped_newline.induct)
  case (1 a b rest)
  show ?case
  proof (cases "a = BSL \<and> b = LOWER_N")
    case True
    with 1 show ?thesis
      by (simp add: has_escaped_newline_Cons NL_def BSL_def)
  next
    case False
    have hd: "hd (replace_escaped_newline (b # rest)) = b \<or> hd (replace_escaped_newline (b # rest)) = NL"
      using replace_escaped_newline_hd [of "b # rest"] by simp
    have ne: "NL \<noteq> LOWER_N" by (simp add: NL_def LOWER_N_def)
    have eq: "replace_escaped_newline (a # b # rest) = a # replace_escaped_newline (b # rest)"
      using False by auto
    have ih: "\<not> has_escaped_newline (replace_escaped_newline (b # rest))"
      using False 1 by auto
    show ?thesis
      unfolding eq has_escaped_newline_Cons [of a] using False hd ne ih by auto
  qed
qed simp_all

lemma replace_escaped_newline_breaks:
  "has_escaped_newline s \<Longrightarrow> NL \<in> set (replace_escaped_newline s)"
  by (induction s rule: replace_escaped_newline.induct) auto

lemma split_sep_no_sep: "l \<in> set (split_sep c s) \<Longrightarrow> c \<notin> set l"
proof (induction s arbitrary: l)
  case Nil
  then show ?case by simp
next
  case (Cons x xs)
  then show ?case
    by (cases "split_sep c xs") (auto split: if_splits)
qed

lemma split_sep_single: "c \<notin> set l \<Longrightarrow> split_sep c l = [l]"
  by (induction l) auto

lemma split_sep_idem: "concat (map (split_sep c) (split_sep c s)) = split_sep c s"
proof -
  have "\<forall>l \<in> set ls. c \<notin> set l \<Longrightarrow> concat (map (split_sep c) ls) = ls" for ls
    by (induction ls) (auto simp: split_sep_single)
  then show ?thesis
    using split_sep_no_sep by blast
qed

lemma split_sep_two_lines: "c \<in> set s \<Longrightarrow> 2 \<le> length (split_sep c s)"
proof (induction s)
  case Nil
  then show ?case by simp
next
  case (Cons x xs)
  obtain w ws where "split_sep c xs = w # ws"
    using split_sep_nonempty [of c xs] by (cases "split_sep c xs") auto
  with Cons show ?case by (auto split: if_splits)
qed

lemma split_sep_keeps_escape:
  "l \<in> set (split_sep c s) \<Longrightarrow> has_escaped_newline l \<Longrightarrow> has_escaped_newline s"
proof (induction s arbitrary: l)
  case Nil
  then show ?case by simp
next
  case (Cons x xs)
  obtain w ws where sp: "split_sep c xs = w # ws"
    using split_sep_nonempty [of c xs] by (cases "split_sep c xs") auto
  show ?case
  proof (cases "x = c")
    case True
    with Cons sp show ?thesis
      by (auto simp: has_escaped_newline_Cons)
  next
    case False
    have w_in: "w \<in> set (split_sep c xs)" using sp by simp
    have hdw: "w \<noteq> [] \<Longrightarrow> xs \<noteq> [] \<and> hd xs = hd w"
      using sp by (cases xs) (auto split: if_splits list.splits)
    from False Cons.prems sp have "l = x # w \<or> l \<in> set ws" by auto
    then show ?thesis
    proof
      assume "l = x # w"
      with Cons.prems(2) have "(x = BSL \<and> w \<noteq> [] \<and> hd w = LOWER_N) \<or> has_escaped_newline w"
        by (simp add: has_escaped_newline_Cons)
      then show ?thesis
        using hdw Cons.IH [OF w_in] by (auto simp: has_escaped_newline_Cons)
    next
      assume "l \<in> set ws"
      then have "l \<in> set (split_sep c xs)" using sp by simp
      from Cons.IH [OF this Cons.prems(2)] show ?thesis
        by (simp add: has_escaped_newline_Cons)
    qed
  qed
qed

section \<open>What a successful render has drawn\<close>

lemma and_then_InrE:
  assumes "and_then r k = Inr v"
  obtains x where "r = Inr x" and "k x = Inr v"
  using assms by (cases r) (simp_all add: and_then_def)

lemma amber_not_black: "amber_canva \<noteq> COLORS_black"
  by (simp add: amber_canva_def COLORS_black_def)

lemma draw_icon_no_text: "concat (map black_text (draw_icon icon_type x y sz colour)) = []"
proof -
  consider "icon_type = ''calendar''" | "icon_type = ''clock''" | "icon_type = ''location''"
    | "icon_type \<noteq> ''calendar''" "icon_type \<noteq> ''clock''" "icon_type \<noteq> ''location''"
    by blast
  then show ?thesis
    by cases (simp_all add: draw_icon_def Let_def)
qed

lemma try_paste_no_text: "concat (map black_text (concat (map run_call (try_paste e p x y w h opacity)))) = []"
  by (simp add: try_paste_def)

lemma paste_illustration_no_text:
  "concat (map black_text (concat (map run_call (paste_illustration e ip x y w h opacity)))) = []"
  by (cases ip) (simp_all add: try_paste_def)

lemma draw_text_lines_strings:
  "concat (map black_text (concat (map run_call (draw_text_lines x y dy ls fnt colour))))
   = (if colour = COLORS_black then ls else [])"
  by (induction ls arbitrary: y) auto

lemmas title_reading =
  drawn_title_strings_def amber_not_black draw_icon_no_text try_paste_no_text
  paste_illustration_no_text draw_text_lines_strings

lemma ppt_title_strings:
  assumes "create_ppt_layout e title date time location illustration_path width height scale = Inr calls"
  shows "drawn_title_strings (concat (map run_call calls)) = [replace_escaped_newline title]"
  using assms unfolding create_ppt_layout_def Let_def
  by (elim and_then_InrE) (auto simp: title_reading)

lemma ig_story_title_strings:
  assumes "create_ig_story_layout e title date time location illustration_path width height = Inr calls"
  shows "drawn_title_strings (concat (map run_call calls)) = split_sep NL (replace_escaped_newline title)"
  using assms unfolding create_ig_story_layout_def Let_def
  by (elim and_then_InrE) (auto simp: title_reading)

lemma ig_post_title_strings:
  assumes "create_ig_post_layout e title date time location illustration_path width height = Inr calls"
  shows "drawn_title_strings (concat (map run_call calls)) = split_sep NL (replace_escaped_newline title)"
  using assms unfolding create_ig_post_layout_def Let_def
  by (elim and_then_InrE) (auto simp: title_reading)

lemma fb_post_title_strings:
  assumes "create_fb_post_layout e title date time location illustration_path width height = Inr calls"
  shows "drawn_title_strings (concat (map run_call calls)) = split_sep NL (replace_escaped_newline title)"
  using assms unfolding create_fb_post_layout_def Let_def
  by (elim and_then_InrE) (auto simp: title_reading)

lemma layout_title_strings:
  assumes "select_layout e title date time location illustration_path format_name width height scale
           = Inr calls"
  shows "drawn_title_strings (concat (map run_call calls)) = [replace_escaped_newline title]
       \<or> drawn_title_strings (concat (map run_call calls)) = split_sep NL (replace_escaped_newline title)"
  using assms ppt_title_strings ig_story_title_strings ig_post_title_strings fb_post_title_strings
  unfolding select_layout_def by (simp split: if_splits)

lemma create_event_graphic_InrD:
  assumes "create_event_graphic e title date time location illustration_path format_name output_path scale
           = Inr img"
  shows "\<exists>base_width base_height calls.
           (case map_of FORMATS format_name of Some dims \<Rightarrow> dims | None \<Rightarrow> (1024, 768))
             = (base_width, base_height)
         \<and> canvas_size_ok e (base_width * scale) (base_height * scale)
         \<and> select_layout e title date time location illustration_path format_name
             (base_width * scale) (base_height * scale) scale = Inr calls
         \<and> img_ops img = concat (map run_call calls)
         \<and> img_w img = base_width * scale \<and> img_h img = base_height * scale"
proof -
  obtain bw bh where d:
    "(case map_of FORMATS format_name of Some dims \<Rightarrow> dims | None \<Rightarrow> (1024, 768)) = (bw, bh)"
    by fastforce
  let ?finish = "\<lambda>calls.
        let img = \<lparr>img_w = bw * scale, img_h = bh * scale, img_bg = COLORS_white,
                   img_ops = concat (map run_call calls), saved_to = None\<rparr>
        in case output_path of
             None \<Rightarrow> Inr img
           | Some p \<Rightarrow>
               if p = [] then Inr img
               else if save_ok e p then Inr (img\<lparr>saved_to := Some p\<rparr>)
               else Inl SaveError"
  from assms have ok: "canvas_size_ok e (bw * scale) (bh * scale)"
    and run: "and_then (select_layout e title date time location illustration_path format_name
                 (bw * scale) (bh * scale) scale) ?finish = Inr img"
    by (simp_all add: create_event_graphic_def default_dimensions d Let_def split: if_splits)
  from run obtain calls where calls:
    "select_layout e title date time location illustration_path format_name
       (bw * scale) (bh * scale) scale = Inr calls"
    and fin: "?finish calls = Inr img"
    by (rule and_then_InrE)
  from fin have "img_ops img = concat (map run_call calls) \<and> img_w img = bw * scale \<and> img_h img = bh * scale"
    by (cases output_path) (auto simp: Let_def split: if_splits)
  with d ok calls show ?thesis
    by blast
qed






section \<open>Properties of scaling\<close>



























section \<open>Unregistered formats, missing illustrations, unknown icons, font fallback\<close>

text \<open>
  C1, as the code has it. \<^verbatim>\<open>create_event_graphic\<close> has no format check: an
  identifier outside the registry takes the default of \<^verbatim>\<open>FORMATS.get\<close> and the
  final \<^verbatim>\<open>else\<close> of the layout dispatch, so the call renders the slide layout on a
  1024 by 768 base and saves it when a path is given. The concrete run below, with the
  identifier \<open>unknown_format\<close> at scale 2, returns a 2048 by 1536 graphic with 22
  operations and writes the file.
\<close>

theorem unknown_format_renders_slide:
  "map_sum id (\<lambda>r. (img_w r, img_h r, length (img_ops r), saved_to r))
     (create_event_graphic mac_env ''La Mesa Abierta'' ''Viernes 9 de Enero'' ''19:00 hrs''
        ''En diversas casas'' None ''unknown_format'' (Some ''out/e.png'') 2)
   = Inr (2048, 1536, 22, Some ''out/e.png'')"
  by (simp add: concrete_render)

text \<open>
  C1, amended. For an identifier outside the registry, \<^verbatim>\<open>create_event_graphic\<close>
  returns exactly what it returns for \<open>ppt_4_3\<close> (same graphic, same file written, same
  error if any); and the batch entry point \<^verbatim>\<open>generate_complete_graphic\<close> skips the
  identifier: the outcome (results, files written, error) is that of the same request
  without it.
\<close>

theorem unknown_format_falls_back_or_is_skipped:
  assumes "format_name \<notin> set (map fst FORMATS)"
  shows "create_event_graphic e title date time location illustration_path format_name output_path scale
       = create_event_graphic e title date time location illustration_path ''ppt_4_3'' output_path scale
     \<and> generate_complete_graphic e title date time location illustration_path
          (Some (fs1 @ format_name # fs2)) output_prefix
       = generate_complete_graphic e title date time location illustration_path
          (Some (fs1 @ fs2)) output_prefix"
proof
  have same: "select_layout e title date time location illustration_path format_name w h scale
      = select_layout e title date time location illustration_path ''ppt_4_3'' w h scale" for w h
    using unregistered_format [OF assms] by (simp add: select_layout_def)
  show "create_event_graphic e title date time location illustration_path format_name output_path scale
       = create_event_graphic e title date time location illustration_path ''ppt_4_3'' output_path scale"
    using unregistered_format(1) [OF assms]
    by (simp add: create_event_graphic_def default_dimensions same Let_def)
  show "generate_complete_graphic e title date time location illustration_path
          (Some (fs1 @ format_name # fs2)) output_prefix
       = generate_complete_graphic e title date time location illustration_path
          (Some (fs1 @ fs2)) output_prefix"
    using generate_formats_skip [OF assms] by (simp add: generate_complete_graphic_def)
qed

theorem unknown_format_falls_back_or_is_skipped_witness:
  "''unknown_format'' \<notin> set (map fst FORMATS)
   \<and> create_event_graphic mac_env ''La Mesa Abierta'' ''Viernes 9 de Enero'' ''19:00 hrs''
        ''En diversas casas'' None ''unknown_format'' (Some ''out/e.png'') 2
     = create_event_graphic mac_env ''La Mesa Abierta'' ''Viernes 9 de Enero'' ''19:00 hrs''
        ''En diversas casas'' None ''ppt_4_3'' (Some ''out/e.png'') 2
   \<and> generate_complete_graphic mac_env ''La Mesa Abierta'' ''Viernes 9 de Enero'' ''19:00 hrs''
        ''En diversas casas'' None (Some ([] @ ''unknown_format'' # [])) ''event''
     = generate_complete_graphic mac_env ''La Mesa Abierta'' ''Viernes 9 de Enero'' ''19:00 hrs''
        ''En diversas casas'' None (Some ([] @ [])) ''event''"
proof -
  have h: "''unknown_format'' \<notin> set (map fst FORMATS)"
    by (simp add: FORMATS_def)
  show ?thesis
    using h unknown_format_falls_back_or_is_skipped [OF h] by blast
qed

text \<open>
  C2. An illustration path that names no existing file, or a file that cannot be opened,
  changes nothing: for every event, format, output path and scale the call returns
  exactly what it returns with no illustration path, be it a graphic (same operations,
  same file written) or an error of another cause. The failed load therefore never ends
  the render.
\<close>

theorem missing_illustration_same_as_none:
  assumes "\<not> path_exists e p \<or> \<not> open_ok e p"
  shows "create_event_graphic e title date time location (Some p) format_name output_path scale
       = create_event_graphic e title date time location None format_name output_path scale"
proof -
  have same: "select_layout e title date time location (Some p) format_name width height scale
      = select_layout e title date time location None format_name width height scale"
    for width height
    using paste_illustration_unavailable [OF assms]
    by (simp add: select_layout_def create_ppt_layout_def create_ig_story_layout_def
        create_ig_post_layout_def create_fb_post_layout_def Let_def)
  show ?thesis
    by (simp add: create_event_graphic_def same Let_def split: option.split prod.split)
qed

theorem missing_illustration_same_as_none_witness:
  "\<not> path_exists mac_env ''illustrations/missing.png''
   \<and> create_event_graphic mac_env ''La Mesa Abierta'' ''Viernes 9 de Enero'' ''19:00 hrs''
        ''En diversas casas'' (Some ''illustrations/missing.png'') ''instagram_story'' None 2
     = create_event_graphic mac_env ''La Mesa Abierta'' ''Viernes 9 de Enero'' ''19:00 hrs''
        ''En diversas casas'' None ''instagram_story'' None 2"
proof -
  have h: "\<not> path_exists mac_env ''illustrations/missing.png''"
    by (simp add: mac_env_def)
  then have h': "\<not> path_exists mac_env ''illustrations/missing.png''
      \<or> \<not> open_ok mac_env ''illustrations/missing.png''"
    by simp
  show ?thesis
    using h missing_illustration_same_as_none [OF h'] by blast
qed

text \<open>
  C7, as the code has it. The chain of comparisons in \<^verbatim>\<open>draw_icon\<close> ends without
  an \<^verbatim>\<open>else\<close>: the icon type \<open>star\<close> adds no operation to the canvas and the
  call returns normally.
\<close>

theorem unknown_icon_draws_nothing_example:
  "draw_icon ''star'' 75 440 40 amber_canva = []
   \<and> run_call (DrawIcon ''star'' 75 440 40 amber_canva) = []"
  by (simp add: draw_icon_def)

text \<open>
  C7, amended. For every icon type outside \<open>calendar\<close>, \<open>clock\<close> and \<open>location\<close>,
  \<^verbatim>\<open>draw_icon\<close> draws nothing and returns normally, at every position, size and
  colour. No error is raised.
\<close>

theorem unknown_icon_draws_nothing:
  assumes "icon_type \<notin> {''calendar'', ''clock'', ''location''}"
  shows "draw_icon icon_type x y sz colour = []"
  using assms by (simp add: draw_icon_def)

theorem unknown_icon_draws_nothing_witness:
  "''pin'' \<notin> {''calendar'', ''clock'', ''location''} \<and> draw_icon ''pin'' 42 726 52 amber_canva = []"
proof -
  have h: "''pin'' \<notin> {''calendar'', ''clock'', ''location''}"
    by simp
  show ?thesis
    using h unknown_icon_draws_nothing [OF h] by blast
qed




section \<open>The scale factor and the title's line breaks\<close>




text \<open>
  C10. Every layout, the default one included, replaces each backslash-\<open>n\<close> pair of the
  title by a line feed before drawing. So in every graphic a render returns, the lines
  drawn for the title are exactly the lines of the replaced title, no string drawn for the
  title contains a backslash followed by \<open>n\<close>, and a title that contained such a pair is
  drawn as at least two lines.
\<close>

theorem title_escapes_become_line_breaks:
  assumes "create_event_graphic e title date time location illustration_path format_name output_path scale
           = Inr img"
  shows "drawn_title_lines (img_ops img) = split_sep NL (replace_escaped_newline title)
       \<and> (\<forall>t \<in> set (drawn_title_strings (img_ops img)). \<not> has_escaped_newline t)
       \<and> (has_escaped_newline title \<longrightarrow> 2 \<le> length (drawn_title_lines (img_ops img)))"
proof -
  obtain calls width height where calls:
    "select_layout e title date time location illustration_path format_name width height scale
       = Inr calls"
    and ops: "img_ops img = concat (map run_call calls)"
    using create_event_graphic_InrD [OF assms] by blast
  let ?t = "replace_escaped_newline title"
  have strings: "drawn_title_strings (img_ops img) = [?t]
      \<or> drawn_title_strings (img_ops img) = split_sep NL ?t"
    using layout_title_strings [OF calls] ops by simp
  then have lines: "drawn_title_lines (img_ops img) = split_sep NL ?t"
    by (auto simp: drawn_title_lines_def split_sep_idem)
  have clean: "\<forall>t \<in> set (drawn_title_strings (img_ops img)). \<not> has_escaped_newline t"
    using strings no_escape_after_replace [of title] split_sep_keeps_escape [of _ NL ?t]
    by auto
  have "2 \<le> length (split_sep NL ?t)" if "has_escaped_newline title"
    using replace_escaped_newline_breaks [OF that] by (rule split_sep_two_lines)
  with lines clean show ?thesis
    by simp
qed

theorem title_escapes_become_line_breaks_witness:
  "has_escaped_newline (''La Mesa'' @ [BSL, LOWER_N] @ ''Abierta'')
   \<and> \<not> isl (create_event_graphic mac_env (''La Mesa'' @ [BSL, LOWER_N] @ ''Abierta'')
              ''Viernes 9 de Enero'' ''19:00 hrs'' ''En diversas casas'' None ''instagram_post'' None 2)
   \<and> drawn_title_lines (img_ops (projr
         (create_event_graphic mac_env (''La Mesa'' @ [BSL, LOWER_N] @ ''Abierta'')
            ''Viernes 9 de Enero'' ''19:00 hrs'' ''En diversas casas'' None ''instagram_post'' None 2)))
       = [''La Mesa'', ''Abierta'']"
proof -
  let ?title = "''La Mesa'' @ [BSL, LOWER_N] @ ''Abierta''"
  let ?r = "create_event_graphic mac_env ?title ''Viernes 9 de Enero'' ''19:00 hrs''
              ''En diversas casas'' None ''instagram_post'' None 2"
  have esc: "has_escaped_newline ?title"
    by simp
  obtain img where r: "?r = Inr img"
    by (simp add: concrete_render py_int_def)
  have "split_sep NL (replace_escaped_newline ?title) = [''La Mesa'', ''Abierta'']"
    by (simp add: NL_def BSL_def LOWER_N_def)
  with title_escapes_become_line_breaks [OF r] esc r show ?thesis
    by simp
qed

section \<open>Scale linearity\<close>




section \<open>The text wrapper: line widths, line count, round trip\<close>



text \<open>
  C5, as the code has it. \<^verbatim>\<open>''.split(' ')\<close> is the list of one empty word, and
  a list that holds one empty word is not empty: for the empty text the wrapper returns
  one line, not zero lines.
\<close>

theorem wrap_text_empty_text_one_line:
  "length (wrap_text mac_env [] sample_font 100) = 1
   \<and> wrap_text mac_env [] sample_font 100 \<noteq> []"
  by (simp add: wrap_text_def)

text \<open>
  C5, amended. The wrapper returns at least one line for every input text, empty or not,
  whatever the measurer, the font and the budget; for the empty text it returns exactly
  one line, the empty string.
\<close>

theorem wrap_text_at_least_one_line:
  "wrap_text e text fnt max_width \<noteq> [] \<and> wrap_text e [] fnt max_width = [[]]"
proof
  obtain chunks where ch:
    "wrap_text e text fnt max_width = map (join_sep SP) chunks"
    "concat chunks = split_sep SP text"
    using wrap_text_chunks by blast
  have "concat chunks \<noteq> []"
    using ch(2) split_sep_nonempty by simp
  then have "chunks \<noteq> []"
    by auto
  with ch(1) show "wrap_text e text fnt max_width \<noteq> []"
    by simp
  show "wrap_text e [] fnt max_width = [[]]"
    by (simp add: wrap_text_def)
qed

text \<open>
  C6, as the code has it. The wrapper splits on the single space character and keeps
  empty words. A text with a run of two spaces comes back with both spaces, which is not
  the whitespace-normalized text of the spec.
\<close>

theorem wrap_text_join_not_normalized:
  "join_sep SP (wrap_text mac_env ''a  b'' sample_font 100) \<noteq> spec_whitespace_normalized ''a  b''"
  by (simp add: wrap_text_def mac_env_def sample_font_def fixed_pitch_def SP_def
      spec_whitespace_normalized_def is_whitespace_def)

text \<open>
  C6, amended. For every text, measurer, font and budget, joining the returned lines with
  single spaces gives back the input text itself, character for character.
\<close>

theorem wrap_text_join_is_input:
  "join_sep SP (wrap_text e text fnt max_width) = text"
proof -
  obtain chunks where ch:
    "wrap_text e text fnt max_width = map (join_sep SP) chunks"
    "concat chunks = split_sep SP text"
    "\<forall>ch \<in> set chunks. ch \<noteq> []
        \<and> (text_width e fnt (join_sep SP ch) \<le> max_width \<or> (\<exists>w. ch = [w]))"
    using wrap_text_chunks by blast
  have "join_sep SP (map (join_sep SP) chunks) = join_sep SP (concat chunks)"
    using ch(3) by (intro join_sep_concat) blast
  with ch show ?thesis
    by (simp add: join_split_sep)
qed

end
